theory Spec2Isabelle
  imports Main
begin

section \<open>The local history store of static/js/app.js\<close>

text \<open>
  The class \<open>ShAIApp\<close> keeps the history of past generations in the browser's
  \<open>localStorage\<close> under the single key \<open>"shai-pickup-history"\<close>. The methods
  embedded here are \<open>getLocalHistory\<close>, \<open>saveLocalHistory\<close>, \<open>addToLocalHistory\<close>,
  \<open>deleteHistoryItem\<close>, \<open>clearHistory\<close> and \<open>loadHistory\<close> (with the part of
  \<open>displayHistory\<close> that decides whether rendering throws).
\<close>

subsection \<open>Values\<close>

text \<open>
  What \<open>JSON.parse\<close> can return. Numbers are opaque payload for the store; they are
  represented by integers, which \<open>JSON.stringify\<close> writes and \<open>JSON.parse\<close> reads
  back unchanged. An object is the list of its properties.
\<close>

datatype json =
    JNull
  | JBool bool
  | JNum int
  | JStr string
  | JArr "json list"
  | JObj "(string \<times> json) list"

text \<open>A JavaScript value met by the store code: \<open>undefined\<close>, or a JSON value.\<close>

datatype jsval = Undefined | Defined json

text \<open>The exceptions the host can raise in these methods.\<close>

datatype exn = StorageError | SyntaxError | TypeError

text \<open>
  \<open>JSON.parse\<close> and \<open>JSON.stringify\<close> belong to the host, not to the repository. A
  persisted string is represented by what \<open>JSON.parse\<close> makes of it: the empty string
  (the only falsy string), a non-empty string that is no JSON text, or a JSON text,
  given by the value it denotes. This builds in the host's contract that parsing what
  \<open>JSON.stringify\<close> wrote gives the value back.
\<close>

datatype persisted = Empty_text | Malformed_text | Json_text json

fun JSON_parse :: "persisted \<Rightarrow> exn + json" where
  "JSON_parse (Json_text v) = Inr v"
| "JSON_parse Empty_text = Inl SyntaxError"
| "JSON_parse Malformed_text = Inl SyntaxError"

definition JSON_stringify :: "json \<Rightarrow> persisted" where
  "JSON_stringify v = Json_text v"

text \<open>Truthiness of a string, and of a parsed value.\<close>

fun truthy_text :: "persisted \<Rightarrow> bool" where
  "truthy_text Empty_text = False"
| "truthy_text Malformed_text = True"
| "truthy_text (Json_text v) = True"

fun truthy :: "json \<Rightarrow> bool" where
  "truthy JNull = False"
| "truthy (JBool b) = b"
| "truthy (JNum n) = (n \<noteq> 0)"
| "truthy (JStr s) = (s \<noteq> [])"
| "truthy (JArr xs) = True"
| "truthy (JObj kvs) = True"

text \<open>
  Reading a property \<open>v.k\<close>, for the property names the store uses (\<open>id\<close>, \<open>input\<close>,
  \<open>user_input\<close>, \<open>pickup_lines\<close>, \<open>timestamp\<close>, \<open>using_local\<close>), none of which a
  prototype defines: on \<open>null\<close> a TypeError, on an object the property or
  \<open>undefined\<close>, on every other value \<open>undefined\<close>.
\<close>

fun get_prop :: "json \<Rightarrow> string \<Rightarrow> exn + jsval" where
  "get_prop JNull k = Inl TypeError"
| "get_prop (JObj kvs) k =
     Inr (case map_of kvs k of None \<Rightarrow> Undefined | Some v \<Rightarrow> Defined v)"
| "get_prop (JBool b) k = Inr Undefined"
| "get_prop (JNum n) k = Inr Undefined"
| "get_prop (JStr s) k = Inr Undefined"
| "get_prop (JArr xs) k = Inr Undefined"

text \<open>
  An object literal \<open>{k1: v1, ...}\<close> whose property values may be \<open>undefined\<close>. The
  store only ever passes the literal to \<open>JSON.stringify\<close>, which leaves out the
  properties whose value is \<open>undefined\<close>; \<open>object_literal\<close> is the object as it is
  serialized.
\<close>

fun defined_props :: "(string \<times> jsval) list \<Rightarrow> (string \<times> json) list" where
  "defined_props [] = []"
| "defined_props ((k, Undefined) # kvs) = defined_props kvs"
| "defined_props ((k, Defined v) # kvs) = (k, v) # defined_props kvs"

definition object_literal :: "(string \<times> jsval) list \<Rightarrow> json" where
  "object_literal kvs = JObj (defined_props kvs)"

subsection \<open>The host: storage, clock, random numbers, dialogs, output\<close>

text \<open>
  What the methods write to the console and show to the user, in order. \<open>showError\<close>
  and \<open>showTemporaryMessage\<close> only write to elements of the page; the rest of the DOM
  is not part of the model.
\<close>

datatype ui_event =
    ConsoleError string exn
  | ShowError string "exn option"
  | TemporaryMessage string string

text \<open>
  \<open>ShowError p (Some e)\<close> is \<open>showError\<close> called with the prefix \<open>p\<close> followed by
  \<open>e.message\<close>; \<open>ShowError p None\<close> is \<open>showError(p)\<close>.
\<close>

record world =
  item :: "persisted option"
  out :: "ui_event list"

text \<open>
  What the host decides during one call: whether each storage primitive throws (storage
  denied, quota exceeded), the reading of \<open>Date.now()\<close>, the string
  \<open>Math.random().toString(36).substr(2, 9)\<close>, and the answer to \<open>confirm\<close>.
  Every method runs to its end within one turn of the event loop, so these conditions
  are fixed for the duration of a call; successive calls each have their own.
\<close>

record env =
  getItem_throws :: bool
  setItem_throws :: bool
  removeItem_throws :: bool
  now :: nat
  random_suffix :: string
  confirm_answer :: bool

type_synonym 'a result = "(exn + 'a) \<times> world"

definition emit :: "ui_event \<Rightarrow> world \<Rightarrow> world" where
  "emit ev w = w\<lparr>out := out w @ [ev]\<rparr>"

definition localStorage_getItem :: "env \<Rightarrow> world \<Rightarrow> (persisted option) result" where
  "localStorage_getItem e w =
     (if getItem_throws e then (Inl StorageError, w) else (Inr (item w), w))"

definition localStorage_setItem :: "env \<Rightarrow> persisted \<Rightarrow> world \<Rightarrow> unit result" where
  "localStorage_setItem e s w =
     (if setItem_throws e then (Inl StorageError, w) else (Inr (), w\<lparr>item := Some s\<rparr>))"

definition localStorage_removeItem :: "env \<Rightarrow> world \<Rightarrow> unit result" where
  "localStorage_removeItem e w =
     (if removeItem_throws e then (Inl StorageError, w) else (Inr (), w\<lparr>item := None\<rparr>))"

text \<open>\<open>Date.now().toString()\<close>: the decimal digits of a natural number.\<close>

fun toString :: "nat \<Rightarrow> string" where
  "toString n =
     (if n < 10 then [''0123456789'' ! n]
      else toString (n div 10) @ [''0123456789'' ! (n mod 10)])"

declare toString.simps [simp del]

subsection \<open>Reading and writing the history\<close>

text \<open>
  \<^verbatim>\<open>
  getLocalHistory() {
    try {
      const history = localStorage.getItem("shai-pickup-history");
      return history ? JSON.parse(history) : [];
    } catch (error) {
      console.error("Failed to load local history:", error);
      return [];
    }
  }
  \<close>
\<close>

definition getLocalHistory :: "env \<Rightarrow> world \<Rightarrow> json result" where
  "getLocalHistory e w =
     (case localStorage_getItem e w of
        (Inl x, w1) \<Rightarrow>
          (Inr (JArr []), emit (ConsoleError ''Failed to load local history:'' x) w1)
      | (Inr None, w1) \<Rightarrow> (Inr (JArr []), w1)
      | (Inr (Some history), w1) \<Rightarrow>
          (if truthy_text history then
             (case JSON_parse history of
                Inl x \<Rightarrow>
                  (Inr (JArr []), emit (ConsoleError ''Failed to load local history:'' x) w1)
              | Inr v \<Rightarrow> (Inr v, w1))
           else (Inr (JArr []), w1)))"

text \<open>
  \<^verbatim>\<open>
  saveLocalHistory(history) {
    try {
      localStorage.setItem("shai-pickup-history", JSON.stringify(history));
    } catch (error) {
      console.error("Failed to save local history:", error);
    }
  }
  \<close>
\<close>

definition saveLocalHistory :: "env \<Rightarrow> json \<Rightarrow> world \<Rightarrow> jsval result" where
  "saveLocalHistory e history w =
     (case localStorage_setItem e (JSON_stringify history) w of
        (Inl x, w1) \<Rightarrow>
          (Inr Undefined, emit (ConsoleError ''Failed to save local history:'' x) w1)
      | (Inr u, w1) \<Rightarrow> (Inr Undefined, w1))"

subsection \<open>Rendering\<close>

text \<open>
  The DOM is outside the model. \<open>displayHistory\<close> is kept as far as it decides whether
  rendering throws, because \<open>loadHistory\<close> logs that: \<open>createHistoryItem\<close> reads
  \<open>item.id\<close> and \<open>item.pickup_lines.length\<close>, and \<open>displayHistory\<close> returns early on
  \<open>!history || history.length === 0\<close> and otherwise calls \<open>history.forEach\<close>.
\<close>

definition createHistoryItem :: "json \<Rightarrow> exn + unit" where
  "createHistoryItem it =
     (case get_prop it ''id'' of
        Inl x \<Rightarrow> Inl x
      | Inr i \<Rightarrow>
          (case get_prop it ''pickup_lines'' of
             Inl x \<Rightarrow> Inl x
           | Inr Undefined \<Rightarrow> Inl TypeError
           | Inr (Defined JNull) \<Rightarrow> Inl TypeError
           | Inr (Defined v) \<Rightarrow> Inr ()))"

fun forEach :: "('a \<Rightarrow> exn + unit) \<Rightarrow> 'a list \<Rightarrow> exn + unit" where
  "forEach f [] = Inr ()"
| "forEach f (x # xs) = (case f x of Inl e \<Rightarrow> Inl e | Inr u \<Rightarrow> forEach f xs)"

fun length_is_zero :: "json \<Rightarrow> bool" where
  "length_is_zero (JArr xs) = (xs = [])"
| "length_is_zero (JStr s) = (s = [])"
| "length_is_zero (JObj kvs) = (map_of kvs ''length'' = Some (JNum 0))"
| "length_is_zero v = False"

definition displayHistory :: "json \<Rightarrow> exn + unit" where
  "displayHistory history =
     (if \<not> truthy history \<or> length_is_zero history then Inr ()
      else (case history of
              JArr xs \<Rightarrow> forEach createHistoryItem xs
            | _ \<Rightarrow> Inl TypeError))"

text \<open>
  \<^verbatim>\<open>
  loadHistory() {
    try {
      const history = this.getLocalHistory();
      this.displayHistory(history);
    } catch (error) {
      console.error("Error loading local history:", error);
    }
  }
  \<close>
\<close>

definition loadHistory :: "env \<Rightarrow> world \<Rightarrow> jsval result" where
  "loadHistory e w =
     (case getLocalHistory e w of
        (Inl x, w1) \<Rightarrow> (Inr Undefined, emit (ConsoleError ''Error loading local history:'' x) w1)
      | (Inr history, w1) \<Rightarrow>
          (case displayHistory history of
             Inl x \<Rightarrow>
               (Inr Undefined, emit (ConsoleError ''Error loading local history:'' x) w1)
           | Inr u \<Rightarrow> (Inr Undefined, w1)))"

subsection \<open>Adding a record\<close>

text \<open>
  \<^verbatim>\<open>
  addToLocalHistory(data) {
    try {
      const history = this.getLocalHistory();
      const historyItem = {
        id: Date.now().toString() + Math.random().toString(36).substr(2, 9),
        user_input: data.input,
        pickup_lines: data.pickup_lines,
        timestamp: data.timestamp,
        using_local: data.using_local,
      };
      history.unshift(historyItem); // Add to beginning
      // Keep only last 50 items
      if (history.length > 50) {
        history.splice(50);
      }
      this.saveLocalHistory(history);
      this.loadHistory(); // Refresh display
    } catch (error) {
      console.error("Failed to add to local history:", error);
    }
  }
  \<close>
\<close>

definition new_id :: "env \<Rightarrow> string" where
  "new_id e = toString (now e) @ random_suffix e"

definition historyItem :: "env \<Rightarrow> json \<Rightarrow> exn + json" where
  "historyItem e data =
     (case get_prop data ''input'' of Inl x \<Rightarrow> Inl x | Inr u \<Rightarrow>
      (case get_prop data ''pickup_lines'' of Inl x \<Rightarrow> Inl x | Inr p \<Rightarrow>
      (case get_prop data ''timestamp'' of Inl x \<Rightarrow> Inl x | Inr t \<Rightarrow>
      (case get_prop data ''using_local'' of Inl x \<Rightarrow> Inl x | Inr l \<Rightarrow>
         Inr (object_literal
               [(''id'', Defined (JStr (new_id e))),
                (''user_input'', u),
                (''pickup_lines'', p),
                (''timestamp'', t),
                (''using_local'', l)])))))"

text \<open>\<open>history.unshift(x)\<close>: only an array has the method.\<close>

fun unshift :: "json \<Rightarrow> json \<Rightarrow> exn + json list" where
  "unshift (JArr xs) x = Inr (x # xs)"
| "unshift v x = Inl TypeError"

text \<open>\<open>if (history.length > 50) history.splice(50)\<close>, on the array after \<open>unshift\<close>.\<close>

definition splice50 :: "json list \<Rightarrow> json list" where
  "splice50 xs = (if length xs > 50 then take 50 xs else xs)"

definition addToLocalHistory_try :: "env \<Rightarrow> json \<Rightarrow> world \<Rightarrow> jsval result" where
  "addToLocalHistory_try e data w =
     (case getLocalHistory e w of
        (Inl x, w1) \<Rightarrow> (Inl x, w1)
      | (Inr history, w1) \<Rightarrow>
          (case historyItem e data of
             Inl x \<Rightarrow> (Inl x, w1)
           | Inr it \<Rightarrow>
               (case unshift history it of
                  Inl x \<Rightarrow> (Inl x, w1)
                | Inr xs \<Rightarrow>
                    (case saveLocalHistory e (JArr (splice50 xs)) w1 of
                       (Inl x, w2) \<Rightarrow> (Inl x, w2)
                     | (Inr u, w2) \<Rightarrow> loadHistory e w2))))"

definition addToLocalHistory :: "env \<Rightarrow> json \<Rightarrow> world \<Rightarrow> jsval result" where
  "addToLocalHistory e data w =
     (case addToLocalHistory_try e data w of
        (Inl x, w1) \<Rightarrow>
          (Inr Undefined, emit (ConsoleError ''Failed to add to local history:'' x) w1)
      | (Inr v, w1) \<Rightarrow> (Inr Undefined, w1))"

subsection \<open>Deleting a record\<close>

text \<open>
  \<^verbatim>\<open>
  deleteHistoryItem(id) {
    try {
      const history = this.getLocalHistory();
      const filteredHistory = history.filter((item) => item.id !== id);
      this.saveLocalHistory(filteredHistory);
      this.loadHistory(); // Refresh display
      this.showTemporaryMessage("History item deleted!", "success");
    } catch (error) {
      console.error("Failed to delete history item:", error);
      this.showError("Failed to delete history item");
    }
  }
  \<close>
  The page calls it with the id as a string literal. \<open>keeps i it\<close> is the callback
  \<open>item.id !== id\<close>; \<open>filter_items\<close> is \<open>Array.prototype.filter\<close> with a callback
  that can throw.
\<close>

definition keeps :: "string \<Rightarrow> json \<Rightarrow> exn + bool" where
  "keeps i it =
     (case get_prop it ''id'' of Inl x \<Rightarrow> Inl x | Inr v \<Rightarrow> Inr (v \<noteq> Defined (JStr i)))"

fun filter_items :: "('a \<Rightarrow> exn + bool) \<Rightarrow> 'a list \<Rightarrow> exn + 'a list" where
  "filter_items p [] = Inr []"
| "filter_items p (x # xs) =
     (case p x of
        Inl e \<Rightarrow> Inl e
      | Inr b \<Rightarrow>
          (case filter_items p xs of
             Inl e \<Rightarrow> Inl e
           | Inr ys \<Rightarrow> Inr (if b then x # ys else ys)))"

fun array_filter :: "(json \<Rightarrow> exn + bool) \<Rightarrow> json \<Rightarrow> exn + json list" where
  "array_filter p (JArr xs) = filter_items p xs"
| "array_filter p v = Inl TypeError"

definition deleteHistoryItem_try :: "env \<Rightarrow> string \<Rightarrow> world \<Rightarrow> jsval result" where
  "deleteHistoryItem_try e i w =
     (case getLocalHistory e w of
        (Inl x, w1) \<Rightarrow> (Inl x, w1)
      | (Inr history, w1) \<Rightarrow>
          (case array_filter (keeps i) history of
             Inl x \<Rightarrow> (Inl x, w1)
           | Inr filteredHistory \<Rightarrow>
               (case saveLocalHistory e (JArr filteredHistory) w1 of
                  (Inl x, w2) \<Rightarrow> (Inl x, w2)
                | (Inr u, w2) \<Rightarrow>
                    (case loadHistory e w2 of
                       (Inl x, w3) \<Rightarrow> (Inl x, w3)
                     | (Inr u', w3) \<Rightarrow>
                         (Inr Undefined,
                          emit (TemporaryMessage ''History item deleted!'' ''success'') w3)))))"

definition deleteHistoryItem :: "env \<Rightarrow> string \<Rightarrow> world \<Rightarrow> jsval result" where
  "deleteHistoryItem e i w =
     (case deleteHistoryItem_try e i w of
        (Inl x, w1) \<Rightarrow>
          (Inr Undefined,
           emit (ShowError ''Failed to delete history item'' None)
             (emit (ConsoleError ''Failed to delete history item:'' x) w1))
      | (Inr v, w1) \<Rightarrow> (Inr Undefined, w1))"

subsection \<open>Clearing the history\<close>

text \<open>
  \<^verbatim>\<open>
  clearHistory() {
    if (!confirm("Are you sure you want to clear your pickup line history? ...")) {
      return;
    }
    try {
      localStorage.removeItem("shai-pickup-history");
      ... (DOM updates)
      this.showTemporaryMessage("History cleared successfully!", "success");
    } catch (error) {
      console.error("Error clearing history:", error);
      this.showError(`Failed to clear history: ${error.message}`);
    }
  }
  \<close>
\<close>

definition clearHistory :: "env \<Rightarrow> world \<Rightarrow> jsval result" where
  "clearHistory e w =
     (if \<not> confirm_answer e then (Inr Undefined, w)
      else
        (case localStorage_removeItem e w of
           (Inl x, w1) \<Rightarrow>
             (Inr Undefined,
              emit (ShowError ''Failed to clear history: '' (Some x))
                (emit (ConsoleError ''Error clearing history:'' x) w1))
         | (Inr u, w1) \<Rightarrow>
             (Inr Undefined,
              emit (TemporaryMessage ''History cleared successfully!'' ''success'') w1)))"

subsection \<open>Sequences of calls\<close>

text \<open>
  Repeated \<open>addToLocalHistory\<close>, each call with its own host conditions and its own
  data; and arbitrary sequences of the three mutating methods.
\<close>

fun add_all :: "(env \<times> json) list \<Rightarrow> world \<Rightarrow> world" where
  "add_all [] w = w"
| "add_all ((e, d) # rest) w = add_all rest (snd (addToLocalHistory e d w))"

datatype op = Add json | Remove string | Clear

fun step :: "env \<Rightarrow> op \<Rightarrow> world \<Rightarrow> world" where
  "step e (Add d) w = snd (addToLocalHistory e d w)"
| "step e (Remove i) w = snd (deleteHistoryItem e i w)"
| "step e Clear w = snd (clearHistory e w)"

fun run :: "(env \<times> op) list \<Rightarrow> world \<Rightarrow> world" where
  "run [] w = w"
| "run ((e, c) # rest) w = run rest (step e c w)"

subsection \<open>Derived notions used to state and prove the properties\<close>

text \<open>
  What \<open>getLocalHistory\<close> makes of the persisted item when the storage can be read, and
  what it returns under the host conditions \<open>e\<close>.
\<close>

fun parsed :: "persisted option \<Rightarrow> json" where
  "parsed None = JArr []"
| "parsed (Some Empty_text) = JArr []"
| "parsed (Some Malformed_text) = JArr []"
| "parsed (Some (Json_text v)) = v"

definition readable :: "env \<Rightarrow> world \<Rightarrow> json" where
  "readable e w = (if getItem_throws e then JArr [] else parsed (item w))"

text \<open>The persisted item after \<open>addToLocalHistory\<close> and after \<open>deleteHistoryItem\<close>.\<close>

definition added :: "env \<Rightarrow> json \<Rightarrow> world \<Rightarrow> persisted option" where
  "added e d w =
     (case historyItem e d of
        Inl x \<Rightarrow> item w
      | Inr it \<Rightarrow>
          (case unshift (readable e w) it of
             Inl x \<Rightarrow> item w
           | Inr xs \<Rightarrow>
               if setItem_throws e then item w else Some (Json_text (JArr (splice50 xs)))))"

definition deleted :: "env \<Rightarrow> string \<Rightarrow> world \<Rightarrow> persisted option" where
  "deleted e i w =
     (case array_filter (keeps i) (readable e w) of
        Inl x \<Rightarrow> item w
      | Inr ys \<Rightarrow> if setItem_throws e then item w else Some (Json_text (JArr ys)))"

text \<open>The number of records \<open>getLocalHistory\<close> returns (0 when it returns no array).\<close>

definition history_size :: "env \<Rightarrow> world \<Rightarrow> nat" where
  "history_size e w =
     (case fst (getLocalHistory e w) of Inr (JArr xs) \<Rightarrow> length xs | _ \<Rightarrow> 0)"

text \<open>
  The \<open>id\<close> properties of the records held, in order; and the condition that every
  \<open>Add\<close> of a sequence generates an id that no record held at that moment has.
\<close>

definition ids_held :: "world \<Rightarrow> (exn + jsval) list" where
  "ids_held w =
     (case parsed (item w) of JArr xs \<Rightarrow> map (\<lambda>x. get_prop x ''id'') xs | _ \<Rightarrow> [])"

fun fresh_ids :: "(env \<times> op) list \<Rightarrow> world \<Rightarrow> bool" where
  "fresh_ids [] w = True"
| "fresh_ids ((e, Add d) # rest) w =
     (Inr (Defined (JStr (new_id e))) \<notin> set (ids_held w) \<and> fresh_ids rest (step e (Add d) w))"
| "fresh_ids ((e, Remove i) # rest) w = fresh_ids rest (step e (Remove i) w)"
| "fresh_ids ((e, Clear) # rest) w = fresh_ids rest (step e Clear w)"

subsection \<open>Concrete inputs\<close>

definition env_ok :: env where
  "env_ok = \<lparr>getItem_throws = False, setItem_throws = False, removeItem_throws = False,
             now = 1700000000000, random_suffix = ''k3j9x2q1z'', confirm_answer = True\<rparr>"

definition env_at :: "nat \<Rightarrow> env" where
  "env_at n = env_ok\<lparr>now := n\<rparr>"

definition data_ok :: json where
  "data_ok = JObj [(''success'', JBool True), (''input'', JStr ''coffee shop''),
                   (''pickup_lines'', JArr [JStr ''line1'', JStr ''line2'']),
                   (''timestamp'', JStr ''T1''), (''using_local'', JBool True)]"

definition data_bar :: json where
  "data_bar = JObj [(''success'', JBool True), (''input'', JStr ''bar''),
                    (''pickup_lines'', JArr [JStr ''line3'']),
                    (''timestamp'', JStr ''T2''), (''using_local'', JBool False)]"

definition record_at :: "nat \<Rightarrow> json" where
  "record_at n = JObj [(''id'', JStr (toString n @ ''k3j9x2q1z'')),
                     (''user_input'', JStr ''coffee shop''),
                     (''pickup_lines'', JArr [JStr ''line1'', JStr ''line2'']),
                     (''timestamp'', JStr ''T1''), (''using_local'', JBool True)]"

definition record_ok :: json where
  "record_ok = JObj [(''id'', JStr ''1700000000000k3j9x2q1z''),
                     (''user_input'', JStr ''coffee shop''),
                     (''pickup_lines'', JArr [JStr ''line1'', JStr ''line2'']),
                     (''timestamp'', JStr ''T1''), (''using_local'', JBool True)]"

definition record_bar :: json where
  "record_bar = JObj [(''id'', JStr ''1700000000000k3j9x2q1z''),
                      (''user_input'', JStr ''bar''),
                      (''pickup_lines'', JArr [JStr ''line3'']),
                      (''timestamp'', JStr ''T2''), (''using_local'', JBool False)]"

definition w_empty :: world where
  "w_empty = \<lparr>item = None, out = []\<rparr>"

definition w_garbage :: world where
  "w_garbage = \<lparr>item = Some Malformed_text, out = []\<rparr>"

definition w_one :: world where
  "w_one = \<lparr>item = Some (Json_text (JArr [record_ok])), out = []\<rparr>"

definition w_three :: world where
  "w_three =
     \<lparr>item = Some (Json_text (JArr [record_at 3, record_at 2, record_at 1])), out = []\<rparr>"

definition eds51 :: "(env \<times> json) list" where
  "eds51 = map (\<lambda>n. (env_at n, data_ok)) [0..<51]"

definition ops_example :: "(env \<times> op) list" where
  "ops_example =
     [(env_at 1, Add data_ok), (env_at 2, Add data_ok), (env_ok, Remove ''1k3j9x2q1z''),
      (env_at 3, Add data_bar), (env_ok, Clear), (env_at 1, Add data_ok)]"

section \<open>Properties\<close>

subsection \<open>What each method returns and leaves in the storage\<close>

lemma item_emit [simp]: "item (emit ev w) = item w"
  by (simp add: emit_def)

lemma getLocalHistory_returns: "\<exists>v w'. getLocalHistory e w = (Inr v, w')"
  by (cases "item w" rule: parsed.cases)
     (simp_all add: getLocalHistory_def localStorage_getItem_def)

lemma getLocalHistory_fst: "fst (getLocalHistory e w) = Inr (readable e w)"
  by (cases "item w" rule: parsed.cases)
     (simp_all add: getLocalHistory_def localStorage_getItem_def readable_def)

lemma getLocalHistory_item: "item (snd (getLocalHistory e w)) = item w"
  by (cases "item w" rule: parsed.cases)
     (simp_all add: getLocalHistory_def localStorage_getItem_def)

lemma saveLocalHistory_fst: "fst (saveLocalHistory e h w) = Inr Undefined"
  by (simp add: saveLocalHistory_def localStorage_setItem_def)

lemma saveLocalHistory_item:
  "item (snd (saveLocalHistory e h w)) = (if setItem_throws e then item w else Some (Json_text h))"
  by (simp add: saveLocalHistory_def localStorage_setItem_def JSON_stringify_def)

lemma loadHistory_fst: "fst (loadHistory e w) = Inr Undefined"
  using getLocalHistory_fst [of e w]
  by (cases "getLocalHistory e w") (auto simp: loadHistory_def split: sum.splits)

lemma loadHistory_item: "item (snd (loadHistory e w)) = item w"
  using getLocalHistory_fst [of e w] getLocalHistory_item [of e w]
  by (cases "getLocalHistory e w") (auto simp: loadHistory_def split: sum.splits)

lemma save_then_load_item:
  "item (snd (case saveLocalHistory e h w1 of
                (Inl x, w2) \<Rightarrow> (Inl x, w2)
              | (Inr u, w2) \<Rightarrow> loadHistory e w2)) =
   (if setItem_throws e then item w1 else Some (Json_text h))"
  using saveLocalHistory_fst [of e h w1] saveLocalHistory_item [of e h w1]
  by (cases "saveLocalHistory e h w1") (auto simp: loadHistory_item)

lemma addToLocalHistory_try_item: "item (snd (addToLocalHistory_try e d w)) = added e d w"
  using getLocalHistory_fst [of e w] getLocalHistory_item [of e w]
  by (cases "getLocalHistory e w")
     (simp add: addToLocalHistory_try_def added_def save_then_load_item split: sum.splits)

lemma addToLocalHistory_item: "item (snd (addToLocalHistory e d w)) = added e d w"
  using addToLocalHistory_try_item [of e d w]
  by (cases "addToLocalHistory_try e d w") (auto simp: addToLocalHistory_def split: sum.splits)

lemma addToLocalHistory_fst: "fst (addToLocalHistory e d w) = Inr Undefined"
  by (cases "addToLocalHistory_try e d w") (auto simp: addToLocalHistory_def split: sum.splits)

lemma save_load_toast_item:
  "item (snd (case saveLocalHistory e h w1 of
                (Inl x, w2) \<Rightarrow> (Inl x, w2)
              | (Inr u, w2) \<Rightarrow>
                  (case loadHistory e w2 of
                     (Inl x, w3) \<Rightarrow> (Inl x, w3)
                   | (Inr u', w3) \<Rightarrow> (Inr Undefined, emit ev w3)))) =
   (if setItem_throws e then item w1 else Some (Json_text h))"
proof -
  obtain a w2 where s: "saveLocalHistory e h w1 = (a, w2)"
    by (cases "saveLocalHistory e h w1")
  obtain b w3 where l: "loadHistory e w2 = (b, w3)"
    by (cases "loadHistory e w2")
  from s saveLocalHistory_fst [of e h w1] have a: "a = Inr Undefined" by simp
  from l loadHistory_fst [of e w2] have b: "b = Inr Undefined" by simp
  from s saveLocalHistory_item [of e h w1]
  have w2: "item w2 = (if setItem_throws e then item w1 else Some (Json_text h))" by simp
  from l loadHistory_item [of e w2] have w3: "item w3 = item w2" by simp
  show ?thesis by (simp add: s l a b w2 w3)
qed

lemma deleteHistoryItem_try_item: "item (snd (deleteHistoryItem_try e i w)) = deleted e i w"
  using getLocalHistory_fst [of e w] getLocalHistory_item [of e w]
  by (cases "getLocalHistory e w")
     (simp add: deleteHistoryItem_try_def deleted_def save_load_toast_item split: sum.splits)

lemma deleteHistoryItem_item: "item (snd (deleteHistoryItem e i w)) = deleted e i w"
  using deleteHistoryItem_try_item [of e i w]
  by (cases "deleteHistoryItem_try e i w") (auto simp: deleteHistoryItem_def split: sum.splits)

lemma deleteHistoryItem_fst: "fst (deleteHistoryItem e i w) = Inr Undefined"
  by (cases "deleteHistoryItem_try e i w") (auto simp: deleteHistoryItem_def split: sum.splits)

subsection \<open>Facts about the concrete inputs\<close>

lemma env_ok_flags: "\<not> getItem_throws env_ok" "\<not> setItem_throws env_ok"
  "\<not> removeItem_throws env_ok" "confirm_answer env_ok"
  by (simp_all add: env_ok_def)

lemma toString_now: "toString 1700000000000 = ''1700000000000''"
  by (simp add: toString.simps)

lemma toString_small:
  "toString (Suc 0) = ''1''" "toString 1 = ''1''" "toString 2 = ''2''" "toString 3 = ''3''"
  by (simp_all add: toString.simps)

lemma historyItem_ok: "historyItem env_ok data_ok = Inr record_ok"
  by (simp add: historyItem_def data_ok_def env_ok_def record_ok_def
      object_literal_def new_id_def toString_now)

lemma historyItem_bar: "historyItem env_ok data_bar = Inr record_bar"
  by (simp add: historyItem_def data_bar_def env_ok_def record_bar_def
      object_literal_def new_id_def toString_now)

lemma historyItem_at: "historyItem (env_at n) data_ok = Inr (record_at n)"
  by (simp add: historyItem_def data_ok_def env_at_def env_ok_def record_at_def
      object_literal_def new_id_def)

lemma data_ok_props:
  "get_prop data_ok ''input'' = Inr (Defined (JStr ''coffee shop''))"
  "get_prop data_ok ''pickup_lines'' = Inr (Defined (JArr [JStr ''line1'', JStr ''line2'']))"
  "get_prop data_ok ''timestamp'' = Inr (Defined (JStr ''T1''))"
  "get_prop data_ok ''using_local'' = Inr (Defined (JBool True))"
  by (simp_all add: data_ok_def)

lemma record_at_id:
  "get_prop (record_at n) ''id'' = Inr (Defined (JStr (toString n @ ''k3j9x2q1z'')))"
  by (simp add: record_at_def)

lemma load_w_empty: "fst (getLocalHistory env_ok w_empty) = Inr (JArr [])"
  by (simp add: getLocalHistory_fst readable_def w_empty_def)

lemma load_w_three:
  "fst (getLocalHistory env_ok w_three) = Inr (JArr [record_at 3, record_at 2, record_at 1])"
  by (simp add: getLocalHistory_fst readable_def env_ok_flags w_three_def)

subsection \<open>Loading\<close>

text \<open>
  Claim C6. \<open>getLocalHistory\<close> always returns a value and never raises: it returns the
  empty array when nothing is persisted under the key and when the persisted string does
  not parse; a storage error and a parse error are written to the console and the empty
  array is returned.
\<close>

theorem load_never_raises_C6:
  "(\<exists>v w'. getLocalHistory e w = (Inr v, w')) \<and>
   (item w = None \<longrightarrow> fst (getLocalHistory e w) = Inr (JArr [])) \<and>
   (\<forall>s x. item w = Some s \<and> JSON_parse s = Inl x \<longrightarrow>
      fst (getLocalHistory e w) = Inr (JArr [])) \<and>
   (getItem_throws e \<longrightarrow>
      getLocalHistory e w =
        (Inr (JArr []), emit (ConsoleError ''Failed to load local history:'' StorageError) w)) \<and>
   (\<not> getItem_throws e \<and> item w = Some Malformed_text \<longrightarrow>
      getLocalHistory e w =
        (Inr (JArr []), emit (ConsoleError ''Failed to load local history:'' SyntaxError) w))"
proof -
  have a: "\<exists>v w'. getLocalHistory e w = (Inr v, w')"
    by (rule getLocalHistory_returns)
  have b: "item w = None \<Longrightarrow> fst (getLocalHistory e w) = Inr (JArr [])"
    by (simp add: getLocalHistory_fst readable_def)
  have c: "item w = Some s \<Longrightarrow> JSON_parse s = Inl x \<Longrightarrow>
      fst (getLocalHistory e w) = Inr (JArr [])" for s x
    by (cases s) (simp_all add: getLocalHistory_fst readable_def)
  have d: "getItem_throws e \<Longrightarrow>
      getLocalHistory e w =
        (Inr (JArr []), emit (ConsoleError ''Failed to load local history:'' StorageError) w)"
    by (simp add: getLocalHistory_def localStorage_getItem_def)
  have f: "\<not> getItem_throws e \<Longrightarrow> item w = Some Malformed_text \<Longrightarrow>
      getLocalHistory e w =
        (Inr (JArr []), emit (ConsoleError ''Failed to load local history:'' SyntaxError) w)"
    by (simp add: getLocalHistory_def localStorage_getItem_def)
  from a b c d f show ?thesis by blast
qed

theorem load_never_raises_C6_witness:
  "item w_garbage = Some Malformed_text \<and> JSON_parse Malformed_text = Inl SyntaxError \<and>
   \<not> getItem_throws env_ok \<and>
   getLocalHistory env_ok w_garbage =
     (Inr (JArr []), \<lparr>item = Some Malformed_text,
                      out = [ConsoleError ''Failed to load local history:'' SyntaxError]\<rparr>) \<and>
   getItem_throws (env_ok\<lparr>getItem_throws := True\<rparr>) \<and>
   getLocalHistory (env_ok\<lparr>getItem_throws := True\<rparr>) w_garbage =
     (Inr (JArr []), \<lparr>item = Some Malformed_text,
                      out = [ConsoleError ''Failed to load local history:'' StorageError]\<rparr>) \<and>
   item \<lparr>item = None, out = []\<rparr> = None \<and>
   fst (getLocalHistory env_ok \<lparr>item = None, out = []\<rparr>) = Inr (JArr [])"
  using load_never_raises_C6 [of env_ok w_garbage]
        load_never_raises_C6 [of "env_ok\<lparr>getItem_throws := True\<rparr>" w_garbage]
        load_never_raises_C6 [of env_ok "\<lparr>item = None, out = []\<rparr>"]
  by (simp add: w_garbage_def env_ok_def emit_def)

text \<open>
  Claim C10. \<open>getLocalHistory\<close> validates nothing: when the persisted string is a JSON
  text it returns the parsed value as it is, whatever its shape, and changes nothing.
  When the storage can be read, the empty array comes back only if the key is absent,
  the string does not parse, or the string denotes the empty array itself.
\<close>

theorem load_no_validation_C10:
  "(\<not> getItem_throws e \<and> item w = Some (Json_text v) \<longrightarrow> getLocalHistory e w = (Inr v, w)) \<and>
   (\<not> getItem_throws e \<and> fst (getLocalHistory e w) = Inr (JArr []) \<longrightarrow>
      item w = None \<or> (\<exists>s x. item w = Some s \<and> JSON_parse s = Inl x) \<or>
      item w = Some (Json_text (JArr [])))"
proof -
  have a: "\<not> getItem_throws e \<Longrightarrow> item w = Some (Json_text v) \<Longrightarrow>
      getLocalHistory e w = (Inr v, w)"
    by (simp add: getLocalHistory_def localStorage_getItem_def)
  have b: "\<not> getItem_throws e \<Longrightarrow> fst (getLocalHistory e w) = Inr (JArr []) \<Longrightarrow>
      item w = None \<or> (\<exists>s x. item w = Some s \<and> JSON_parse s = Inl x) \<or>
      item w = Some (Json_text (JArr []))"
    by (cases "item w" rule: parsed.cases) (simp_all add: getLocalHistory_fst readable_def)
  from a b show ?thesis by blast
qed

theorem load_no_validation_C10_witness:
  "\<not> getItem_throws env_ok \<and>
   getLocalHistory env_ok \<lparr>item = Some (Json_text (JNum 7)), out = []\<rparr> =
     (Inr (JNum 7), \<lparr>item = Some (Json_text (JNum 7)), out = []\<rparr>) \<and>
   getLocalHistory env_ok \<lparr>item = Some (Json_text (JObj [(''a'', JNull)])), out = []\<rparr> =
     (Inr (JObj [(''a'', JNull)]),
      \<lparr>item = Some (Json_text (JObj [(''a'', JNull)])), out = []\<rparr>) \<and>
   fst (getLocalHistory env_ok w_garbage) = Inr (JArr []) \<and>
   (\<exists>s x. item w_garbage = Some s \<and> JSON_parse s = Inl x)"
  using load_no_validation_C10
          [of env_ok "\<lparr>item = Some (Json_text (JNum 7)), out = []\<rparr>" "JNum 7"]
        load_no_validation_C10
          [of env_ok "\<lparr>item = Some (Json_text (JObj [(''a'', JNull)])), out = []\<rparr>"
              "JObj [(''a'', JNull)]"]
        load_no_validation_C10 [of env_ok w_garbage]
  by (simp add: w_garbage_def env_ok_def getLocalHistory_def localStorage_getItem_def emit_def)

subsection \<open>Adding\<close>

lemma splice50_take: "splice50 xs = take 50 xs"
  by (simp add: splice50_def)

lemma take_append_take: "take n (ys @ take n zs) = take n (ys @ zs)"
  by (simp add: min_def)

lemma historyItem_id:
  "historyItem e d = Inr it \<Longrightarrow> get_prop it ''id'' = Inr (Defined (JStr (new_id e)))"
  by (auto simp: historyItem_def object_literal_def split: sum.splits)

lemma historyItem_props:
  assumes "get_prop d ''input'' = Inr u" "get_prop d ''pickup_lines'' = Inr p"
    and "get_prop d ''timestamp'' = Inr t" "get_prop d ''using_local'' = Inr l"
  shows "\<exists>it. historyItem e d = Inr it \<and>
           get_prop it ''id'' = Inr (Defined (JStr (new_id e))) \<and>
           get_prop it ''user_input'' = Inr u \<and>
           get_prop it ''pickup_lines'' = Inr p \<and>
           get_prop it ''timestamp'' = Inr t \<and>
           get_prop it ''using_local'' = Inr l"
  using assms
  by (cases u; cases p; cases t; cases l) (simp_all add: historyItem_def object_literal_def)

text \<open>One call on a readable, writable storage that holds an array.\<close>

lemma add_step:
  assumes "\<not> getItem_throws e" "\<not> setItem_throws e"
    and "historyItem e d = Inr it"
    and "fst (getLocalHistory e w) = Inr (JArr xs)"
    and "\<not> getItem_throws r"
  shows "fst (getLocalHistory r (snd (addToLocalHistory e d w))) = Inr (JArr (take 50 (it # xs)))"
proof -
  from assms(1,4) have "readable e w = JArr xs"
    by (simp add: getLocalHistory_fst)
  with assms(2,3)
  have "item (snd (addToLocalHistory e d w)) = Some (Json_text (JArr (take 50 (it # xs))))"
    by (simp add: addToLocalHistory_item added_def splice50_take)
  with assms(5) show ?thesis
    by (simp add: getLocalHistory_fst readable_def)
qed

lemma add_all_snoc: "add_all (eds @ [(e, d)]) w = snd (addToLocalHistory e d (add_all eds w))"
  by (induction eds arbitrary: w) auto

lemma add_all_load:
  assumes "\<forall>(e, d) \<in> set eds. \<not> getItem_throws e \<and> \<not> setItem_throws e"
    and "map (\<lambda>(e, d). historyItem e d) eds = map Inr its"
    and "fst (getLocalHistory r w) = Inr (JArr xs)"
    and "\<not> getItem_throws r"
    and "eds \<noteq> []"
  shows "fst (getLocalHistory r (add_all eds w)) = Inr (JArr (take 50 (rev its @ xs)))"
  using assms
proof (induction eds arbitrary: w xs its)
  case Nil
  then show ?case by simp
next
  case (Cons ed eds)
  obtain e d where ed: "ed = (e, d)" by (cases ed)
  from Cons.prems(2) ed obtain it its' where its: "its = it # its'"
    and it: "historyItem e d = Inr it"
    and rest: "map (\<lambda>(e, d). historyItem e d) eds = map Inr its'"
    by (cases its) auto
  from Cons.prems(1) ed have ok: "\<not> getItem_throws e" "\<not> setItem_throws e"
    and oks: "\<forall>(e, d) \<in> set eds. \<not> getItem_throws e \<and> \<not> setItem_throws e"
    by auto
  from Cons.prems(3,4) ok have "fst (getLocalHistory e w) = Inr (JArr xs)"
    by (simp add: getLocalHistory_fst readable_def)
  from add_step [OF ok it this Cons.prems(4)]
  have step: "fst (getLocalHistory r (snd (addToLocalHistory e d w))) =
      Inr (JArr (take 50 (it # xs)))" .
  show ?case
  proof (cases "eds = []")
    case True
    with rest have "its' = []" by simp
    with True step ed its show ?thesis by simp
  next
    case False
    from Cons.IH [OF oks rest step Cons.prems(4) False]
    have "fst (getLocalHistory r (add_all eds (snd (addToLocalHistory e d w)))) =
          Inr (JArr (take 50 (rev its' @ take 50 (it # xs))))" .
    then show ?thesis using ed its by (simp only: take_append_take) simp
  qed
qed

lemma add_all_array:
  assumes "\<forall>(e, d) \<in> set eds. \<not> getItem_throws e \<and> \<not> setItem_throws e"
    and "map (\<lambda>(e, d). historyItem e d) eds = map Inr its"
    and "fst (getLocalHistory r w) = Inr (JArr xs)"
    and "\<not> getItem_throws r"
  shows "\<exists>ys. fst (getLocalHistory r (add_all eds w)) = Inr (JArr ys)"
proof (cases "eds = []")
  case True
  with assms(3) show ?thesis by simp
next
  case False
  from add_all_load [OF assms False] show ?thesis by blast
qed

lemma add_all_size_step:
  assumes "\<forall>(e, d) \<in> set eds. \<not> getItem_throws e \<and> \<not> setItem_throws e"
    and "map (\<lambda>(e, d). historyItem e d) eds = map Inr its"
    and "fst (getLocalHistory r w) = Inr (JArr xs)"
    and "\<not> getItem_throws r"
    and "k < length eds"
  shows "history_size r (add_all (take (Suc k) eds) w) =
         min (history_size r (add_all (take k eds) w) + 1) 50"
proof -
  obtain e d where ed: "eds ! k = (e, d)" by (cases "eds ! k")
  from assms(5) have tk: "take (Suc k) eds = take k eds @ [(e, d)]"
    by (simp add: take_Suc_conv_app_nth ed)
  from assms(1,5) ed have ok: "\<not> getItem_throws e" "\<not> setItem_throws e"
    using nth_mem [of k eds] by auto
  from assms(2) have len: "length its = length eds"
    by (rule map_eq_imp_length_eq [symmetric])
  from assms(2) have "map (\<lambda>(e, d). historyItem e d) eds ! k = map Inr its ! k"
    by simp
  with assms(5) len ed have it: "historyItem e d = Inr (its ! k)"
    by simp
  have pre: "\<forall>(e, d) \<in> set (take k eds). \<not> getItem_throws e \<and> \<not> setItem_throws e"
    using assms(1) by (auto dest: in_set_takeD)
  have pre_its: "map (\<lambda>(e, d). historyItem e d) (take k eds) = map Inr (take k its)"
    using arg_cong [OF assms(2), of "take k"] by (simp add: take_map)
  from add_all_array [OF pre pre_its assms(3,4)]
  obtain ys where ys: "fst (getLocalHistory r (add_all (take k eds) w)) = Inr (JArr ys)"
    by blast
  with ok assms(4) have "fst (getLocalHistory e (add_all (take k eds) w)) = Inr (JArr ys)"
    by (simp add: getLocalHistory_fst readable_def)
  from add_step [OF ok it this assms(4)] ys tk show ?thesis
    by (simp add: history_size_def add_all_snoc min_def)
qed

text \<open>
  Claim C1. Take any store state whose history is an array \<open>xs\<close> (an absent key and an
  unparseable string count as the empty array) and any sequence \<open>eds\<close> of
  \<open>addToLocalHistory\<close> calls, each made while the storage can be read and written and
  each building its record (\<open>its\<close> are the records built, in call order). After each
  call the size of the history is the minimum of the size before plus one and 50; after
  the calls the history is the first 50 elements of the new records, newest first,
  followed by \<open>xs\<close>, so the oldest records are the ones dropped; and after more than 50
  calls it is exactly the 50 most recently added records, newest first.
\<close>

theorem add_capped_C1:
  assumes "\<forall>(e, d) \<in> set eds. \<not> getItem_throws e \<and> \<not> setItem_throws e"
    and "map (\<lambda>(e, d). historyItem e d) eds = map Inr its"
    and "fst (getLocalHistory r w) = Inr (JArr xs)"
    and "\<not> getItem_throws r"
  shows "(\<forall>k<length eds. history_size r (add_all (take (Suc k) eds) w) =
            min (history_size r (add_all (take k eds) w) + 1) 50) \<and>
         (eds \<noteq> [] \<longrightarrow>
            fst (getLocalHistory r (add_all eds w)) = Inr (JArr (take 50 (rev its @ xs)))) \<and>
         (50 < length eds \<longrightarrow>
            fst (getLocalHistory r (add_all eds w)) = Inr (JArr (take 50 (rev its))) \<and>
            length (take 50 (rev its)) = 50)"
proof (intro conjI allI impI)
  fix k assume "k < length eds"
  from add_all_size_step [OF assms this]
  show "history_size r (add_all (take (Suc k) eds) w) =
        min (history_size r (add_all (take k eds) w) + 1) 50" .
next
  assume "eds \<noteq> []"
  from add_all_load [OF assms this]
  show "fst (getLocalHistory r (add_all eds w)) = Inr (JArr (take 50 (rev its @ xs)))" .
next
  assume big: "50 < length eds"
  then have ne: "eds \<noteq> []" by auto
  have len: "length its = length eds"
    using assms(2) by (rule map_eq_imp_length_eq [symmetric])
  with big show "length (take 50 (rev its)) = 50" by simp
  from len big have "take 50 (rev its @ xs) = take 50 (rev its)" by simp
  with add_all_load [OF assms ne]
  show "fst (getLocalHistory r (add_all eds w)) = Inr (JArr (take 50 (rev its)))" by simp
qed

text \<open>
  The claim at 51 calls on the empty store: the history is the records 50 down to 1, and
  the record added first is gone.
\<close>

lemma first_record_gone: "record_at 0 \<notin> set (take 50 (rev (map record_at [0..<51])))"
  by code_simp

theorem add_capped_C1_witness:
  "length eds51 = 51 \<and>
   fst (getLocalHistory env_ok (add_all eds51 w_empty)) =
     Inr (JArr (take 50 (rev (map record_at [0..<51])))) \<and>
   length (take 50 (rev (map record_at [0..<51]))) = 50 \<and>
   record_at 0 \<notin> set (take 50 (rev (map record_at [0..<51]))) \<and>
   history_size env_ok (add_all (take (Suc 50) eds51) w_empty) =
     min (history_size env_ok (add_all (take 50 eds51) w_empty) + 1) 50"
proof -
  have h1: "\<forall>(e, d) \<in> set eds51. \<not> getItem_throws e \<and> \<not> setItem_throws e"
    by (auto simp: eds51_def env_at_def env_ok_def)
  have h2: "map (\<lambda>(e, d). historyItem e d) eds51 = map Inr (map record_at [0..<51])"
    unfolding eds51_def by (simp only: map_map o_def split historyItem_at)
  have len: "length eds51 = 51"
    by (simp add: eds51_def)
  have big: "50 < length eds51"
    by (simp only: len)
  note main = add_capped_C1 [OF h1 h2 load_w_empty env_ok_flags(1)]
  from main have "\<forall>k<length eds51.
      history_size env_ok (add_all (take (Suc k) eds51) w_empty) =
      min (history_size env_ok (add_all (take k eds51) w_empty) + 1) 50"
    by (rule conjunct1)
  from this [rule_format, OF big]
  have a: "history_size env_ok (add_all (take (Suc 50) eds51) w_empty) =
      min (history_size env_ok (add_all (take 50 eds51) w_empty) + 1) 50" .
  from main have "50 < length eds51 \<longrightarrow>
      fst (getLocalHistory env_ok (add_all eds51 w_empty)) =
        Inr (JArr (take 50 (rev (map record_at [0..<51])))) \<and>
      length (take 50 (rev (map record_at [0..<51]))) = 50"
    by (rule conjunct2 [THEN conjunct2])
  from this [rule_format, OF big] a len first_record_gone show ?thesis
    by blast
qed

text \<open>
  Claim C4. When \<open>addToLocalHistory\<close> runs on a readable, writable storage whose history
  is the array \<open>xs\<close>, the next \<open>getLocalHistory\<close> returns the new record at index 0,
  followed by the first 49 records of \<open>xs\<close> in their old order: the record is
  prepended, and the earlier records are only cut at the tail.
\<close>

theorem add_prepends_C4:
  assumes "\<not> getItem_throws e" "\<not> setItem_throws e"
    and "historyItem e d = Inr it"
    and "fst (getLocalHistory e w) = Inr (JArr xs)"
    and "\<not> getItem_throws r"
  shows "fst (getLocalHistory r (snd (addToLocalHistory e d w))) = Inr (JArr (it # take 49 xs)) \<and>
         (it # take 49 xs) ! 0 = it"
  using add_step [OF assms] by simp

lemma load_after_ok:
  "fst (getLocalHistory env_ok (snd (addToLocalHistory env_ok data_ok w_empty))) =
     Inr (JArr [record_ok])"
  using add_step [OF env_ok_flags(1,2) historyItem_ok load_w_empty env_ok_flags(1)] by simp

theorem add_prepends_C4_witness:
  "fst (getLocalHistory env_ok
          (snd (addToLocalHistory env_ok data_bar
             (snd (addToLocalHistory env_ok data_ok w_empty))))) =
     Inr (JArr [record_bar, record_ok]) \<and>
   [record_bar, record_ok] ! 0 = record_bar"
  using add_prepends_C4 [OF env_ok_flags(1,2) historyItem_bar load_after_ok env_ok_flags(1)]
  by simp

text \<open>
  Claim C3 as stated asks that the record read back carries a unique id. The id is the
  clock reading followed by the random suffix and is never compared with the ids held:
  a second call under the same clock reading and the same random draw stores a different
  record with the id of the first.
\<close>

theorem add_round_trip_C3_counterexample:
  "fst (getLocalHistory env_ok
          (snd (addToLocalHistory env_ok data_bar
             (snd (addToLocalHistory env_ok data_ok w_empty))))) =
     Inr (JArr [record_bar, record_ok]) \<and>
   record_bar \<noteq> record_ok \<and>
   get_prop record_bar ''id'' = get_prop record_ok ''id''"
  using add_step [OF env_ok_flags(1,2) historyItem_bar load_after_ok env_ok_flags(1)]
  by (simp add: record_bar_def record_ok_def)

text \<open>
  Claim C3, amended. Let \<open>u\<close>, \<open>p\<close>, \<open>t\<close> and \<open>l\<close> be the \<open>input\<close>, \<open>pickup_lines\<close>,
  \<open>timestamp\<close> and \<open>using_local\<close> of the data. On a readable, writable storage whose
  history is an array, \<open>addToLocalHistory\<close> followed by \<open>getLocalHistory\<close> yields at
  index 0 a record whose \<open>user_input\<close> is \<open>u\<close>, whose \<open>pickup_lines\<close> is \<open>p\<close>, whose
  \<open>timestamp\<close> is \<open>t\<close>, whose \<open>using_local\<close> is \<open>l\<close>, and whose \<open>id\<close> is the clock
  reading of the call followed by its random suffix; that id is unique in the history
  read back whenever no record held before the call had it.
\<close>

theorem add_round_trip_C3:
  assumes "\<not> getItem_throws e" "\<not> setItem_throws e"
    and "fst (getLocalHistory e w) = Inr (JArr xs)"
    and "get_prop d ''input'' = Inr u" "get_prop d ''pickup_lines'' = Inr p"
    and "get_prop d ''timestamp'' = Inr t" "get_prop d ''using_local'' = Inr l"
    and "\<not> getItem_throws r"
  shows "\<exists>it. fst (getLocalHistory r (snd (addToLocalHistory e d w))) =
                Inr (JArr (it # take 49 xs)) \<and>
              get_prop it ''user_input'' = Inr u \<and>
              get_prop it ''pickup_lines'' = Inr p \<and>
              get_prop it ''timestamp'' = Inr t \<and>
              get_prop it ''using_local'' = Inr l \<and>
              get_prop it ''id'' = Inr (Defined (JStr (toString (now e) @ random_suffix e))) \<and>
              (get_prop it ''id'' \<notin> (\<lambda>x. get_prop x ''id'') ` set xs \<longrightarrow>
               get_prop it ''id'' \<notin> (\<lambda>x. get_prop x ''id'') ` set (take 49 xs))"
proof -
  from historyItem_props [OF assms(4-7), of e] obtain it where
    it: "historyItem e d = Inr it" and
    props: "get_prop it ''id'' = Inr (Defined (JStr (new_id e)))"
      "get_prop it ''user_input'' = Inr u" "get_prop it ''pickup_lines'' = Inr p"
      "get_prop it ''timestamp'' = Inr t" "get_prop it ''using_local'' = Inr l"
    by blast
  from add_step [OF assms(1,2) it assms(3,8)]
  have "fst (getLocalHistory r (snd (addToLocalHistory e d w))) = Inr (JArr (it # take 49 xs))"
    by simp
  moreover have "get_prop it ''id'' \<notin> (\<lambda>x. get_prop x ''id'') ` set xs \<longrightarrow>
      get_prop it ''id'' \<notin> (\<lambda>x. get_prop x ''id'') ` set (take 49 xs)"
    by (auto dest: in_set_takeD)
  ultimately show ?thesis using props by (auto simp: new_id_def)
qed

theorem add_round_trip_C3_witness:
  "\<exists>it. fst (getLocalHistory env_ok (snd (addToLocalHistory env_ok data_ok w_empty))) =
           Inr (JArr [it]) \<and>
         get_prop it ''user_input'' = Inr (Defined (JStr ''coffee shop'')) \<and>
         get_prop it ''pickup_lines'' = Inr (Defined (JArr [JStr ''line1'', JStr ''line2''])) \<and>
         get_prop it ''timestamp'' = Inr (Defined (JStr ''T1'')) \<and>
         get_prop it ''using_local'' = Inr (Defined (JBool True)) \<and>
         get_prop it ''id'' = Inr (Defined (JStr ''1700000000000k3j9x2q1z''))"
  using add_round_trip_C3 [OF env_ok_flags(1,2) load_w_empty data_ok_props env_ok_flags(1)]
  by (simp add: env_ok_def toString_now)

text \<open>
  Claim C8 as stated has \<open>addToLocalHistory\<close> return the new record. The method has no
  \<open>return\<close> statement: it builds the record and returns \<open>undefined\<close>.
\<close>

theorem add_returns_record_C8_counterexample:
  "historyItem env_ok data_ok = Inr record_ok \<and>
   fst (addToLocalHistory env_ok data_ok w_empty) = Inr Undefined \<and>
   fst (addToLocalHistory env_ok data_ok w_empty) \<noteq> Inr (Defined record_ok)"
  by (simp add: historyItem_ok addToLocalHistory_fst)

text \<open>
  Claim C8, amended. Every call of \<open>addToLocalHistory\<close> returns \<open>undefined\<close> and raises
  nothing. When the storage can be written, the record is built and the history read
  by the call is an array, the persisted sequence immediately after the call starts with
  the new record, whose \<open>id\<close> is the one generated by the call.
\<close>

theorem add_persists_id_C8:
  "fst (addToLocalHistory e d w) = Inr Undefined \<and>
   (\<not> setItem_throws e \<and> historyItem e d = Inr it \<and>
    fst (getLocalHistory e w) = Inr (JArr xs) \<longrightarrow>
      item (snd (addToLocalHistory e d w)) = Some (Json_text (JArr (it # take 49 xs))) \<and>
      get_prop it ''id'' = Inr (Defined (JStr (new_id e))))"
  by (auto simp: addToLocalHistory_fst addToLocalHistory_item added_def getLocalHistory_fst
      splice50_take historyItem_id)

theorem add_persists_id_C8_witness:
  "fst (addToLocalHistory env_ok data_ok w_empty) = Inr Undefined \<and>
   item (snd (addToLocalHistory env_ok data_ok w_empty)) = Some (Json_text (JArr [record_ok])) \<and>
   get_prop record_ok ''id'' = Inr (Defined (JStr ''1700000000000k3j9x2q1z''))"
  using add_persists_id_C8 [of env_ok data_ok w_empty record_ok "[]"]
        env_ok_flags historyItem_ok load_w_empty
  by (simp add: new_id_def env_ok_def toString_now)

subsection \<open>Deleting\<close>

lemma get_prop_not_null: "x \<noteq> JNull \<Longrightarrow> \<exists>v. get_prop x k = Inr v"
  by (cases x) simp_all

lemma filter_items_keeps:
  "JNull \<notin> set xs \<Longrightarrow>
   filter_items (keeps i) xs =
     Inr (filter (\<lambda>x. get_prop x ''id'' \<noteq> Inr (Defined (JStr i))) xs)"
proof (induction xs)
  case Nil
  then show ?case by simp
next
  case (Cons x xs)
  then have "x \<noteq> JNull" by auto
  then obtain v where "get_prop x ''id'' = Inr v"
    using get_prop_not_null by blast
  with Cons show ?case by (simp add: keeps_def)
qed

lemma filter_items_absent:
  "\<forall>x\<in>set xs. get_prop x ''id'' \<noteq> Inr (Defined (JStr i)) \<Longrightarrow>
   filter_items (keeps i) xs = Inr xs \<or> (\<exists>x. filter_items (keeps i) xs = Inl x)"
proof (induction xs)
  case Nil
  then show ?case by simp
next
  case (Cons x xs)
  then show ?case
    by (cases "get_prop x ''id''") (auto simp: keeps_def)
qed

lemma filter_items_sub:
  "filter_items p xs = Inr ys \<Longrightarrow> ys = filter (\<lambda>x. p x = Inr True) xs"
proof (induction xs arbitrary: ys)
  case Nil
  then show ?case by simp
next
  case (Cons x xs)
  then show ?case
    by (auto split: sum.splits if_splits)
qed

lemma filter_distinct_remove1:
  "distinct (map f xs) \<Longrightarrow> y \<in> set xs \<Longrightarrow> filter (\<lambda>x. f x \<noteq> f y) xs = remove1 y xs"
proof (induction xs)
  case Nil
  then show ?case by simp
next
  case (Cons x xs)
  show ?case
  proof (cases "x = y")
    case True
    with Cons.prems have "f y \<notin> f ` set xs" by simp
    then have "\<forall>z\<in>set xs. f z \<noteq> f y" by (auto simp: image_iff)
    then have "filter (\<lambda>x. f x \<noteq> f y) xs = xs" by (simp add: filter_id_conv)
    with True show ?thesis by simp
  next
    case False
    with Cons.prems have "y \<in> set xs" "f x \<noteq> f y" by auto
    with Cons False show ?thesis by simp
  qed
qed

lemma deleted_absent:
  assumes "\<not> getItem_throws e"
    and "\<forall>xs. fst (getLocalHistory e w) = Inr (JArr xs) \<longrightarrow>
           (\<forall>x\<in>set xs. get_prop x ''id'' \<noteq> Inr (Defined (JStr i)))"
  shows "parsed (deleted e i w) = parsed (item w)"
proof (cases "parsed (item w)")
  case (JArr xs)
  with assms have "\<forall>x\<in>set xs. get_prop x ''id'' \<noteq> Inr (Defined (JStr i))"
    by (simp add: getLocalHistory_fst readable_def)
  from filter_items_absent [OF this] JArr assms(1) show ?thesis
    by (auto simp: deleted_def readable_def)
qed (use assms(1) in \<open>simp_all add: deleted_def readable_def\<close>)

text \<open>
  Claim C2 as stated has \<open>deleteHistoryItem\<close> report with a boolean whether a record
  was removed, \<open>false\<close> for an id that is not present. The method has no \<open>return\<close>
  statement: on a store of three records none of which has the id, it returns
  \<open>undefined\<close>.
\<close>

theorem remove_absent_C2_counterexample:
  "fst (getLocalHistory env_ok w_three) = Inr (JArr [record_at 3, record_at 2, record_at 1]) \<and>
   get_prop (record_at 3) ''id'' = Inr (Defined (JStr ''3k3j9x2q1z'')) \<and>
   get_prop (record_at 2) ''id'' = Inr (Defined (JStr ''2k3j9x2q1z'')) \<and>
   get_prop (record_at 1) ''id'' = Inr (Defined (JStr ''1k3j9x2q1z'')) \<and>
   fst (deleteHistoryItem env_ok ''nonexistent-id'' w_three) = Inr Undefined \<and>
   fst (deleteHistoryItem env_ok ''nonexistent-id'' w_three) \<noteq> Inr (Defined (JBool False))"
  by (simp add: load_w_three record_at_id deleteHistoryItem_fst toString_small)

text \<open>
  Claim C2, amended. For every id, \<open>deleteHistoryItem\<close> returns \<open>undefined\<close> and raises
  nothing; and if no record of the history it reads has that id, a \<open>getLocalHistory\<close>
  made afterwards, with the storage as readable as it was during the call, returns what
  it returned before the call.
\<close>

theorem remove_absent_C2:
  "fst (deleteHistoryItem e i w) = Inr Undefined \<and>
   ((\<forall>xs. fst (getLocalHistory e w) = Inr (JArr xs) \<longrightarrow>
       (\<forall>x\<in>set xs. get_prop x ''id'' \<noteq> Inr (Defined (JStr i)))) \<longrightarrow>
    (\<forall>r. getItem_throws r = getItem_throws e \<longrightarrow>
       fst (getLocalHistory r (snd (deleteHistoryItem e i w))) = fst (getLocalHistory r w)))"
proof (intro conjI impI allI)
  show "fst (deleteHistoryItem e i w) = Inr Undefined"
    by (rule deleteHistoryItem_fst)
next
  fix r :: env
  assume absent: "\<forall>xs. fst (getLocalHistory e w) = Inr (JArr xs) \<longrightarrow>
       (\<forall>x\<in>set xs. get_prop x ''id'' \<noteq> Inr (Defined (JStr i)))"
    and r: "getItem_throws r = getItem_throws e"
  show "fst (getLocalHistory r (snd (deleteHistoryItem e i w))) = fst (getLocalHistory r w)"
  proof (cases "getItem_throws e")
    case True
    with r show ?thesis by (simp add: getLocalHistory_fst readable_def)
  next
    case False
    from deleted_absent [OF False absent] r False show ?thesis
      by (simp add: getLocalHistory_fst readable_def deleteHistoryItem_item)
  qed
qed

theorem remove_absent_C2_witness:
  "fst (deleteHistoryItem env_ok ''nonexistent-id'' w_three) = Inr Undefined \<and>
   fst (getLocalHistory env_ok (snd (deleteHistoryItem env_ok ''nonexistent-id'' w_three))) =
     Inr (JArr [record_at 3, record_at 2, record_at 1])"
proof -
  have a: "\<forall>xs. fst (getLocalHistory env_ok w_three) = Inr (JArr xs) \<longrightarrow>
       (\<forall>x\<in>set xs. get_prop x ''id'' \<noteq> Inr (Defined (JStr ''nonexistent-id'')))"
    by (simp add: load_w_three record_at_id toString_small)
  from remove_absent_C2 [of env_ok "''nonexistent-id''" w_three] a load_w_three show ?thesis
    by simp
qed

text \<open>
  Claim C5 as stated has \<open>deleteHistoryItem\<close> return \<open>true\<close> when it removes a
  record. On a store holding one record, called with that record's id, it returns
  \<open>undefined\<close>.
\<close>

theorem remove_present_C5_counterexample:
  "fst (getLocalHistory env_ok w_one) = Inr (JArr [record_ok]) \<and>
   get_prop record_ok ''id'' = Inr (Defined (JStr ''1700000000000k3j9x2q1z'')) \<and>
   fst (deleteHistoryItem env_ok ''1700000000000k3j9x2q1z'' w_one) = Inr Undefined \<and>
   fst (deleteHistoryItem env_ok ''1700000000000k3j9x2q1z'' w_one) \<noteq> Inr (Defined (JBool True))"
  by (simp add: getLocalHistory_fst readable_def env_ok_flags w_one_def deleteHistoryItem_fst
      record_ok_def)

text \<open>
  Claim C5, amended. Let the storage be readable and writable, let the history be an
  array \<open>xs\<close> without \<open>null\<close> elements, and let \<open>y\<close> be a record of \<open>xs\<close> with the
  string id \<open>i\<close>. Then \<open>deleteHistoryItem\<close> called with \<open>i\<close> returns \<open>undefined\<close>, and
  the next \<open>getLocalHistory\<close> returns the records of \<open>xs\<close> whose id is not \<open>i\<close>, in
  their old order: \<open>y\<close> is not among them, and when the ids of \<open>xs\<close> are distinct the
  result is \<open>xs\<close> with exactly \<open>y\<close> taken out.
\<close>

theorem remove_present_C5:
  assumes "\<not> getItem_throws e" "\<not> setItem_throws e"
    and "fst (getLocalHistory e w) = Inr (JArr xs)" "JNull \<notin> set xs"
    and "y \<in> set xs" "get_prop y ''id'' = Inr (Defined (JStr i))"
    and "\<not> getItem_throws r"
  shows "fst (deleteHistoryItem e i w) = Inr Undefined \<and>
         fst (getLocalHistory r (snd (deleteHistoryItem e i w))) =
           Inr (JArr (filter (\<lambda>x. get_prop x ''id'' \<noteq> Inr (Defined (JStr i))) xs)) \<and>
         y \<notin> set (filter (\<lambda>x. get_prop x ''id'' \<noteq> Inr (Defined (JStr i))) xs) \<and>
         (distinct (map (\<lambda>x. get_prop x ''id'') xs) \<longrightarrow>
            filter (\<lambda>x. get_prop x ''id'' \<noteq> Inr (Defined (JStr i))) xs = remove1 y xs)"
proof (intro conjI impI)
  show "fst (deleteHistoryItem e i w) = Inr Undefined"
    by (rule deleteHistoryItem_fst)
next
  from assms(1,3) have "readable e w = JArr xs"
    by (simp add: getLocalHistory_fst)
  with assms(2,4) have "deleted e i w =
      Some (Json_text (JArr (filter (\<lambda>x. get_prop x ''id'' \<noteq> Inr (Defined (JStr i))) xs)))"
    by (simp add: deleted_def filter_items_keeps)
  with assms(7) show "fst (getLocalHistory r (snd (deleteHistoryItem e i w))) =
      Inr (JArr (filter (\<lambda>x. get_prop x ''id'' \<noteq> Inr (Defined (JStr i))) xs))"
    by (simp add: getLocalHistory_fst readable_def deleteHistoryItem_item)
next
  from assms(6) show "y \<notin> set (filter (\<lambda>x. get_prop x ''id'' \<noteq> Inr (Defined (JStr i))) xs)"
    by simp
next
  assume "distinct (map (\<lambda>x. get_prop x ''id'') xs)"
  from filter_distinct_remove1 [OF this assms(5)] assms(6)
  show "filter (\<lambda>x. get_prop x ''id'' \<noteq> Inr (Defined (JStr i))) xs = remove1 y xs"
    by simp
qed

theorem remove_present_C5_witness:
  "fst (deleteHistoryItem env_ok ''2k3j9x2q1z'' w_three) = Inr Undefined \<and>
   fst (getLocalHistory env_ok (snd (deleteHistoryItem env_ok ''2k3j9x2q1z'' w_three))) =
     Inr (JArr [record_at 3, record_at 1]) \<and>
   remove1 (record_at 2) [record_at 3, record_at 2, record_at 1] = [record_at 3, record_at 1]"
proof -
  have n: "JNull \<notin> set [record_at 3, record_at 2, record_at 1]"
    by (simp add: record_at_def)
  have m: "record_at 2 \<in> set [record_at 3, record_at 2, record_at 1]"
    by simp
  have i: "get_prop (record_at 2) ''id'' = Inr (Defined (JStr ''2k3j9x2q1z''))"
    by (simp add: record_at_id toString_small)
  have d: "distinct (map (\<lambda>x. get_prop x ''id'') [record_at 3, record_at 2, record_at 1])"
    by (simp add: record_at_id toString_small)
  have f: "filter (\<lambda>x. get_prop x ''id'' \<noteq> Inr (Defined (JStr ''2k3j9x2q1z'')))
             [record_at 3, record_at 2, record_at 1] = [record_at 3, record_at 1]"
    by (simp add: record_at_id toString_small)
  from remove_present_C5 [OF env_ok_flags(1,2) load_w_three n m i env_ok_flags(1)] d f
  show ?thesis by simp
qed

subsection \<open>Clearing\<close>

text \<open>
  Claim C7. When the user confirms and \<open>removeItem\<close> does not throw, nothing is
  persisted after \<open>clearHistory\<close>: every later \<open>getLocalHistory\<close> returns the empty
  array, and so does one after that. When \<open>removeItem\<close> throws, \<open>clearHistory\<close> still
  returns normally; it writes the error to the console, shows the message
  \<open>Failed to clear history\<close> with the error's text, and changes nothing else.
\<close>

theorem clear_erases_C7:
  "(confirm_answer e \<and> \<not> removeItem_throws e \<longrightarrow>
      item (snd (clearHistory e w)) = None \<and>
      (\<forall>r. fst (getLocalHistory r (snd (clearHistory e w))) = Inr (JArr [])) \<and>
      (\<forall>r r'. fst (getLocalHistory r' (snd (getLocalHistory r (snd (clearHistory e w))))) =
         Inr (JArr []))) \<and>
   (confirm_answer e \<and> removeItem_throws e \<longrightarrow>
      clearHistory e w =
        (Inr Undefined,
         w\<lparr>out := out w @ [ConsoleError ''Error clearing history:'' StorageError,
                           ShowError ''Failed to clear history: '' (Some StorageError)]\<rparr>))"
proof (intro conjI impI allI)
  assume a: "confirm_answer e \<and> \<not> removeItem_throws e"
  then show c: "item (snd (clearHistory e w)) = None"
    by (simp add: clearHistory_def localStorage_removeItem_def)
  show "fst (getLocalHistory r (snd (clearHistory e w))) = Inr (JArr [])" for r
    by (simp add: getLocalHistory_fst readable_def c)
  show "fst (getLocalHistory r' (snd (getLocalHistory r (snd (clearHistory e w))))) =
      Inr (JArr [])" for r r'
    by (simp add: getLocalHistory_fst readable_def getLocalHistory_item c)
next
  assume "confirm_answer e \<and> removeItem_throws e"
  then show "clearHistory e w =
        (Inr Undefined,
         w\<lparr>out := out w @ [ConsoleError ''Error clearing history:'' StorageError,
                           ShowError ''Failed to clear history: '' (Some StorageError)]\<rparr>)"
    by (simp add: clearHistory_def localStorage_removeItem_def emit_def)
qed

theorem clear_erases_C7_witness:
  "item w_one = Some (Json_text (JArr [record_ok])) \<and>
   item (snd (clearHistory env_ok w_one)) = None \<and>
   fst (getLocalHistory env_ok (snd (clearHistory env_ok w_one))) = Inr (JArr []) \<and>
   fst (getLocalHistory env_ok (snd (getLocalHistory env_ok (snd (clearHistory env_ok w_one))))) =
     Inr (JArr []) \<and>
   clearHistory (env_ok\<lparr>removeItem_throws := True\<rparr>) w_one =
     (Inr Undefined,
      \<lparr>item = Some (Json_text (JArr [record_ok])),
       out = [ConsoleError ''Error clearing history:'' StorageError,
              ShowError ''Failed to clear history: '' (Some StorageError)]\<rparr>)"
  using clear_erases_C7 [of env_ok w_one]
        clear_erases_C7 [of "env_ok\<lparr>removeItem_throws := True\<rparr>" w_one]
  by (simp add: env_ok_def w_one_def)

subsection \<open>Uniqueness of ids\<close>

lemma distinct_map_take: "distinct (map f xs) \<Longrightarrow> distinct (map f (take n xs))"
  by (simp add: take_map [symmetric])

lemma ids_held_array:
  "item w = Some (Json_text (JArr xs)) \<Longrightarrow> ids_held w = map (\<lambda>x. get_prop x ''id'') xs"
  by (simp add: ids_held_def)

lemma readable_ids:
  "readable e w = JArr xs \<Longrightarrow> set (map (\<lambda>x. get_prop x ''id'') xs) \<subseteq> set (ids_held w)"
  by (auto simp: readable_def ids_held_def split: if_splits)

lemma readable_distinct:
  "readable e w = JArr xs \<Longrightarrow> distinct (ids_held w) \<Longrightarrow>
   distinct (map (\<lambda>x. get_prop x ''id'') xs)"
  by (auto simp: readable_def ids_held_def split: if_splits)

lemma add_keeps_distinct:
  assumes "distinct (ids_held w)"
    and "Inr (Defined (JStr (new_id e))) \<notin> set (ids_held w)"
  shows "distinct (ids_held (snd (addToLocalHistory e d w)))"
proof (cases "item (snd (addToLocalHistory e d w)) = item w")
  case True
  with assms(1) show ?thesis by (simp add: ids_held_def)
next
  case False
  then obtain it xs where it: "historyItem e d = Inr it"
    and xs: "readable e w = JArr xs"
    and new: "item (snd (addToLocalHistory e d w)) = Some (Json_text (JArr (take 50 (it # xs))))"
    by (cases "readable e w")
       (auto simp: addToLocalHistory_item added_def splice50_take split: sum.splits if_splits)
  from readable_ids [OF xs] assms(2) historyItem_id [OF it]
  have "get_prop it ''id'' \<notin> set (map (\<lambda>x. get_prop x ''id'') xs)"
    by auto
  with readable_distinct [OF xs assms(1)]
  have "distinct (map (\<lambda>x. get_prop x ''id'') (it # xs))"
    by simp
  then have "distinct (map (\<lambda>x. get_prop x ''id'') (take 50 (it # xs)))"
    by (rule distinct_map_take)
  with new show ?thesis
    by (simp only: ids_held_array)
qed

lemma remove_keeps_distinct:
  assumes "distinct (ids_held w)"
  shows "distinct (ids_held (snd (deleteHistoryItem e i w)))"
proof (cases "item (snd (deleteHistoryItem e i w)) = item w")
  case True
  with assms show ?thesis by (simp add: ids_held_def)
next
  case False
  then obtain xs ys where xs: "readable e w = JArr xs"
    and ys: "filter_items (keeps i) xs = Inr ys"
    and new: "item (snd (deleteHistoryItem e i w)) = Some (Json_text (JArr ys))"
    by (cases "readable e w")
       (auto simp: deleteHistoryItem_item deleted_def split: sum.splits if_splits)
  from filter_items_sub [OF ys] readable_distinct [OF xs assms]
  have "distinct (map (\<lambda>x. get_prop x ''id'') ys)"
    by (simp add: distinct_map_filter)
  with new show ?thesis
    by (simp only: ids_held_array)
qed

lemma clear_keeps_distinct:
  assumes "distinct (ids_held w)"
  shows "distinct (ids_held (snd (clearHistory e w)))"
  using assms
  by (auto simp: clearHistory_def localStorage_removeItem_def ids_held_def)

lemma run_keeps_distinct:
  "distinct (ids_held w) \<Longrightarrow> fresh_ids ops w \<Longrightarrow> distinct (ids_held (run ops w))"
proof (induction ops w rule: fresh_ids.induct)
  case (1 w)
  then show ?case by simp
next
  case (2 e d rest w)
  then show ?case by (simp add: add_keeps_distinct)
next
  case (3 e i rest w)
  then show ?case by (simp add: remove_keeps_distinct)
next
  case (4 e rest w)
  then show ?case by (simp add: clear_keeps_distinct)
qed

text \<open>
  Claim C9 as stated holds of every state reached from the empty store. Two
  \<open>addToLocalHistory\<close> calls under the same clock reading and the same random draw
  reach, from the empty store, a state that holds two records with one id.
\<close>

theorem ids_unique_C9_counterexample:
  "\<not> distinct (ids_held (run [(env_ok, Add data_ok), (env_ok, Add data_bar)] w_empty))"
proof -
  have "item (run [(env_ok, Add data_ok), (env_ok, Add data_bar)] w_empty) =
        Some (Json_text (JArr [record_bar, record_ok]))"
    by (simp add: addToLocalHistory_item added_def readable_def env_ok_flags historyItem_ok
        historyItem_bar splice50_take w_empty_def)
  then show ?thesis
    by (simp add: ids_held_def record_bar_def record_ok_def)
qed

text \<open>
  Claim C9, amended. In every state reached from the empty store by a sequence of
  \<open>addToLocalHistory\<close>, \<open>deleteHistoryItem\<close> and \<open>clearHistory\<close> calls in which each
  add generates an id that no record held at that moment has, the ids of the records
  held are pairwise distinct.
\<close>

theorem ids_unique_C9:
  "fresh_ids ops w_empty \<Longrightarrow> distinct (ids_held (run ops w_empty))"
  by (rule run_keeps_distinct) (simp_all add: ids_held_def w_empty_def)

theorem ids_unique_C9_witness:
  "fresh_ids ops_example w_empty \<and>
   item (run ops_example w_empty) = Some (Json_text (JArr [record_at 1])) \<and>
   distinct (ids_held (run ops_example w_empty))"
proof -
  have f: "fresh_ids ops_example w_empty"
    by (simp add: ops_example_def addToLocalHistory_item deleteHistoryItem_item added_def
        deleted_def readable_def env_ok_flags historyItem_at historyItem_bar splice50_take
        w_empty_def ids_held_def env_at_def keeps_def record_at_def new_id_def
        historyItem_def object_literal_def data_ok_def data_bar_def
        clearHistory_def localStorage_removeItem_def toString_small env_ok_def toString_now)
  have i: "item (run ops_example w_empty) = Some (Json_text (JArr [record_at 1]))"
    by (simp add: ops_example_def addToLocalHistory_item deleteHistoryItem_item added_def
        deleted_def readable_def env_ok_flags historyItem_at historyItem_bar splice50_take
        w_empty_def ids_held_def env_at_def keeps_def record_at_def new_id_def
        historyItem_def object_literal_def data_ok_def data_bar_def
        clearHistory_def localStorage_removeItem_def toString_small env_ok_def toString_now)
  from ids_unique_C9 [OF f] f i show ?thesis by simp
qed

end
